theory Spec2Isabelle
  imports Main "HOL-Library.Word"
begin

unbundle bit_operations_syntax

section \<open>Byte buffers\<close>

text \<open>
  A \<^verbatim>\<open>Uint8Array\<close> is a list of 8-bit words.  A JavaScript string is represented by
  the sequence of its UTF-8 code units, so \<^verbatim>\<open>new TextEncoder().encode(s)\<close> reads each
  character of the model as one byte.
\<close>

type_synonym byte = "8 word"
type_synonym bytes = "byte list"

definition zeros :: "nat \<Rightarrow> bytes" where
  \<comment> \<open>\<^verbatim>\<open>new Uint8Array(n)\<close>\<close>
  "zeros n = replicate n 0"

definition u8slice :: "bytes \<Rightarrow> nat \<Rightarrow> nat \<Rightarrow> bytes" where
  \<comment> \<open>\<^verbatim>\<open>xs.slice(a, b)\<close> for non-negative indices; both ends are clamped to the length\<close>
  "u8slice xs a b = take (b - a) (drop a xs)"

definition u8set :: "bytes \<Rightarrow> bytes \<Rightarrow> nat \<Rightarrow> bytes" where
  \<comment> \<open>\<^verbatim>\<open>target.set(src, off)\<close>, returning the updated target.  JavaScript raises a
      RangeError when \<open>off + length src > length target\<close>; no call in this development
      is out of range (see the lemmas \<open>length_padToSize\<close>, \<open>length_padTo32Bytes\<close>).\<close>
  "u8set target src off = take off target @ src @ drop (off + length src) target"

definition textEncode :: "string \<Rightarrow> bytes" where
  \<comment> \<open>\<^verbatim>\<open>new TextEncoder().encode(s)\<close>\<close>
  "textEncode s = map (\<lambda>c. of_nat (of_char c)) s"

section \<open>credential/parse.ts: fixed-width buffers\<close>

definition padToSize :: "bytes \<Rightarrow> nat \<Rightarrow> bytes" where
  "padToSize bs sz =
     (if length bs = sz then bs
      else u8set (zeros sz) (u8slice bs 0 sz) 0)"

definition stringToBytes :: "string \<Rightarrow> nat \<Rightarrow> bytes" where
  "stringToBytes str sz = u8set (zeros sz) (u8slice (textEncode str) 0 sz) 0"

section \<open>prover/prover.ts: field-element padding\<close>

definition padTo32Bytes :: "bytes \<Rightarrow> bytes" where
  "padTo32Bytes input =
     (if length input \<ge> 32 then u8slice input 0 32
      else u8set (zeros 32) input (32 - length input))"

section \<open>Properties of the padding functions\<close>

lemma length_padToSize: "length (padToSize bs n) = n"
  by (auto simp: padToSize_def u8set_def zeros_def u8slice_def)

lemma length_stringToBytes: "length (stringToBytes s n) = n"
  by (auto simp: stringToBytes_def u8set_def zeros_def u8slice_def)

lemma length_padTo32Bytes: "length (padTo32Bytes bs) = 32"
  by (auto simp: padTo32Bytes_def u8set_def zeros_def u8slice_def)

lemma padToSize_short: "length bs \<le> n \<Longrightarrow> padToSize bs n = bs @ replicate (n - length bs) 0"
  by (auto simp: padToSize_def u8set_def zeros_def u8slice_def)

lemma padToSize_long: "n \<le> length bs \<Longrightarrow> padToSize bs n = take n bs"
  by (auto simp: padToSize_def u8set_def zeros_def u8slice_def)

text \<open>
  C10.  \<open>padToSize\<close> is idempotent; a buffer that already has the target width is returned
  unchanged, and a shorter buffer is returned followed by zero bytes only, up to the
  target width.
\<close>

theorem padToSize_idempotent:
  "padToSize (padToSize bs n) n = padToSize bs n
   \<and> (length bs = n \<longrightarrow> padToSize bs n = bs)
   \<and> (length bs < n \<longrightarrow> padToSize bs n = bs @ replicate (n - length bs) 0)"
proof -
  have fixed: "padToSize cs n = cs" if "length cs = n" for cs
    using that by (simp add: padToSize_def)
  have "padToSize (padToSize bs n) n = padToSize bs n"
    by (rule fixed) (rule length_padToSize)
  moreover have "length bs = n \<longrightarrow> padToSize bs n = bs"
    by (simp add: fixed)
  moreover have "length bs < n \<longrightarrow> padToSize bs n = bs @ replicate (n - length bs) 0"
    by (simp add: padToSize_short)
  ultimately show ?thesis by blast
qed

theorem padToSize_idempotent_witness:
  "padToSize (padToSize [1, 2, 3] 3) 3 = padToSize [1, 2, 3] 3
   \<and> padToSize [1, 2, 3] 3 = [1, 2, 3]
   \<and> padToSize [7, 9] 5 = [7, 9, 0, 0, 0]"
  using padToSize_idempotent [of "[1, 2, 3]" 3] padToSize_idempotent [of "[7, 9]" 5]
  by (simp add: numeral_eq_Suc)

end
